theory Spec2Isabelle
  imports Complex_Main "HOL-Library.Sublist"
begin

section \<open>Python values of the receipt server\<close>

text \<open>
  The server (\<^verbatim>\<open>servers/receipt_ocr_server.py\<close>) never builds a value of its own
  type: every value it handles comes out of \<^verbatim>\<open>json.loads\<close> / \<^verbatim>\<open>json.load\<close>, so the
  Python values are the JSON values. A dict is an association list in insertion order,
  read with \<^const>\<open>map_of\<close>; the keys of a dict that \<^verbatim>\<open>json.loads\<close> builds are distinct.
  An \<^verbatim>\<open>int\<close> is unbounded; a finite \<^verbatim>\<open>float\<close> is written as the rational it denotes
  (the code does no arithmetic on it).
\<close>

datatype json =
    JNull
  | JBool bool
  | JInt int
  | JFloat rat
  | JStr string
  | JArr "json list"
  | JObj "(string \<times> json) list"

text \<open>
  The exceptions of class \<^verbatim>\<open>Exception\<close> that the code can meet. \<open>External\<close> is any
  exception raised inside a collaborator (the Gemini client, the Sheets client, reading
  the image file), with its message.
\<close>

datatype exn =
    JSONDecodeError
  | TypeError
  | AttributeError
  | KeyError
  | External string

subsection \<open>The operators the code applies to decoded values\<close>

text \<open>\<^verbatim>\<open>k in s\<close> on two strings is the substring test.\<close>

fun substring :: "string \<Rightarrow> string \<Rightarrow> bool" where
  "substring k [] = (k = [])"
| "substring k (c # s) = (prefix k (c # s) \<or> substring k s)"

text \<open>
  \<^verbatim>\<open>k in x\<close> for a string \<open>k\<close>: key membership on a dict, element membership on a
  list, substring on a string, \<^verbatim>\<open>TypeError\<close> on a value that is not a container.
\<close>

fun py_in :: "string \<Rightarrow> json \<Rightarrow> exn + bool" where
  "py_in k (JObj d) = Inr (k \<in> set (map fst d))"
| "py_in k (JArr xs) = Inr (JStr k \<in> set xs)"
| "py_in k (JStr s) = Inr (substring k s)"
| "py_in k _ = Inl TypeError"

text \<open>\<^verbatim>\<open>all(k in x for k in ks)\<close>: stops at the first key that is absent or raises.\<close>

fun all_in :: "string list \<Rightarrow> json \<Rightarrow> exn + bool" where
  "all_in [] x = Inr True"
| "all_in (k # ks) x =
     (case py_in k x of
        Inl e \<Rightarrow> Inl e
      | Inr False \<Rightarrow> Inr False
      | Inr True \<Rightarrow> all_in ks x)"

text \<open>\<^verbatim>\<open>x[k]\<close> for a string \<open>k\<close>.\<close>

fun py_getitem :: "json \<Rightarrow> string \<Rightarrow> exn + json" where
  "py_getitem (JObj d) k = (case map_of d k of None \<Rightarrow> Inl KeyError | Some v \<Rightarrow> Inr v)"
| "py_getitem _ k = Inl TypeError"

text \<open>\<^verbatim>\<open>x.get(k, default)\<close>: only a dict has the method.\<close>

definition dict_get :: "(string \<times> json) list \<Rightarrow> string \<Rightarrow> json \<Rightarrow> json" where
  "dict_get d k dflt = (case map_of d k of None \<Rightarrow> dflt | Some v \<Rightarrow> v)"

fun py_get :: "json \<Rightarrow> string \<Rightarrow> json \<Rightarrow> exn + json" where
  "py_get (JObj d) k dflt = Inr (dict_get d k dflt)"
| "py_get _ k dflt = Inl AttributeError"

text \<open>\<^verbatim>\<open>set(ks) <= x.keys()\<close>: only a dict has the method.\<close>

fun keys_within :: "string list \<Rightarrow> json \<Rightarrow> exn + bool" where
  "keys_within ks (JObj d) = Inr (set ks \<subseteq> set (map fst d))"
| "keys_within ks _ = Inl AttributeError"

text \<open>\<^verbatim>\<open>for li in x\<close>: the elements of a list, the keys of a dict, the characters of a string.\<close>

fun py_iter :: "json \<Rightarrow> exn + json list" where
  "py_iter (JArr xs) = Inr xs"
| "py_iter (JObj d) = Inr (map (\<lambda>kv. JStr (fst kv)) d)"
| "py_iter (JStr s) = Inr (map (\<lambda>c. JStr [c]) s)"
| "py_iter _ = Inl TypeError"

text \<open>\<^verbatim>\<open>xs.append(v)\<close> and \<^verbatim>\<open>xs.remove(v)\<close> (the first occurrence): only a list has them.\<close>

fun py_append :: "json \<Rightarrow> json \<Rightarrow> exn + json" where
  "py_append (JArr xs) v = Inr (JArr (xs @ [v]))"
| "py_append _ v = Inl AttributeError"

fun py_remove :: "json \<Rightarrow> json \<Rightarrow> exn + json" where
  "py_remove (JArr xs) v = Inr (JArr (remove1 v xs))"
| "py_remove _ v = Inl AttributeError"

subsection \<open>What a tool returns\<close>

text \<open>
  A tool returns either \<^verbatim>\<open>json.dumps(d)\<close> for a dict \<open>d\<close> it has just built, or a text
  it did not serialise itself. The dict is kept as it is built: a value in it is a
  string, a count or a decoded value passed through. A string is a sequence of
  fragments, because the messages are f-strings: a literal, \<^verbatim>\<open>str\<close> of the set of
  expected keys, \<^verbatim>\<open>str\<close> of a decoded value, \<^verbatim>\<open>str\<close> of an exception.
\<close>

datatype frag =
    Lit string
  | StrKeys "string list"
  | StrJson json
  | StrExn exn

datatype pval =
    PStr "frag list"
  | PNat nat
  | PJson json

type_synonym payload = "(string \<times> pval) list"

datatype reply =
    Dumps payload
  | Raw string

section \<open>Category storage\<close>

text \<open>
  \<^verbatim>\<open>CATEGORIES_FILE\<close> either does not exist or holds a text: one that \<^verbatim>\<open>json.load\<close>
  rejects, or one that decodes to a value. File permissions and disk errors are not
  modelled: an existing file can be opened, and a write succeeds.
\<close>

datatype contents = Garbled | Doc json

type_synonym store = "contents option"

definition default_categories :: "string list" where
  "default_categories =
     [''Snacks'', ''Vegetables'', ''Meat'', ''Clothes'',
      ''Makeup/Skincare'', ''Condiments'', ''Dairy'',
      ''Beverages'', ''Bakery'']"

definition load_categories :: "store \<Rightarrow> (exn + json) \<times> store" where
  "load_categories st =
     (case st of
        None \<Rightarrow>
          (let dflt = JObj [(''categories'', JArr (map JStr default_categories))]
           in (py_getitem dflt ''categories'', Some (Doc dflt)))
      | Some Garbled \<Rightarrow> (Inl JSONDecodeError, st)
      | Some (Doc data) \<Rightarrow> (py_get data ''categories'' (JArr []), st))"

definition save_categories :: "json \<Rightarrow> store \<Rightarrow> store" where
  "save_categories categories st = Some (Doc (JObj [(''categories'', categories)]))"

section \<open>Sequencing\<close>

text \<open>A statement that raises ends the block it is in: the rest runs only on a value.\<close>

definition and_then :: "exn + 'a \<Rightarrow> ('a \<Rightarrow> exn + 'b) \<Rightarrow> exn + 'b" where
  "and_then m f = (case m of Inl e \<Rightarrow> Inl e | Inr x \<Rightarrow> f x)"

section \<open>Helpers\<close>

text \<open>
  A Gemini response, as far as \<^verbatim>\<open>parse_response\<close> reads it: candidates, each with a
  content or none, a content with parts, each part with a text or none.
\<close>

datatype part = Part "string option"

datatype candidate = Candidate "part list option"

type_synonym response = "candidate list"

fun part_texts :: "part list \<Rightarrow> string list" where
  "part_texts [] = []"
| "part_texts (Part None # ps) = part_texts ps"
| "part_texts (Part (Some t) # ps) = (if t = [] then part_texts ps else t # part_texts ps)"

fun candidate_texts :: "candidate \<Rightarrow> string list" where
  "candidate_texts (Candidate None) = []"
| "candidate_texts (Candidate (Some ps)) = part_texts ps"

fun join :: "string \<Rightarrow> string list \<Rightarrow> string" where
  "join sep [] = []"
| "join sep [t] = t"
| "join sep (t # u # ts) = t @ sep @ join sep (u # ts)"

definition parse_response :: "response \<Rightarrow> string" where
  "parse_response response =
     (if response = [] then []
      else join [CHR 0x0A] (concat (map candidate_texts response)))"

section \<open>Google Sheets tooling\<close>

text \<open>
  The spreadsheet is a collaborator. Its state is the rows it holds and whether
  \<^verbatim>\<open>self.service\<close> is built; \<open>auth_fault\<close> and \<open>execute_fault\<close> are the exceptions
  that \<^verbatim>\<open>auth()\<close> and \<^verbatim>\<open>append(...).execute()\<close> raise, if any. A request that raises
  writes nothing.
\<close>

type_synonym row = "json list"

record sheets =
  service :: bool
  auth_fault :: "exn option"
  execute_fault :: "exn option"
  rows :: "row list"

definition auth :: "sheets \<Rightarrow> exn + sheets" where
  "auth sh = (case auth_fault sh of Some e \<Rightarrow> Inl e | None \<Rightarrow> Inr (sh\<lparr>service := True\<rparr>))"

text \<open>The loop of \<^verbatim>\<open>append_receipt\<close>: one row for every line item, whatever its price.\<close>

fun build_values :: "json \<Rightarrow> json \<Rightarrow> json list \<Rightarrow> exn + row list" where
  "build_values date vendor [] = Inr []"
| "build_values date vendor (li # lis) =
     and_then (py_get li ''item'' (JStr [])) (\<lambda>item.
     and_then (py_get li ''price'' (JStr [])) (\<lambda>price.
     and_then (py_get li ''category'' (JStr [])) (\<lambda>category.
     and_then (build_values date vendor lis) (\<lambda>values.
     Inr ([date, vendor, item, price, category] # values)))))"

definition receipt_values :: "json \<Rightarrow> exn + row list" where
  "receipt_values data =
     and_then (py_get data ''vendor'' (JStr [])) (\<lambda>vendor.
     and_then (py_get data ''date'' (JStr [])) (\<lambda>date.
     and_then (py_get data ''line_items'' (JArr [])) (\<lambda>line_items.
     and_then (py_iter line_items) (\<lambda>lis.
     build_values date vendor lis))))"

text \<open>The row the loop builds from a line item that is a dict.\<close>

definition row_of :: "json \<Rightarrow> json \<Rightarrow> (string \<times> json) list \<Rightarrow> row" where
  "row_of date vendor d =
     [date, vendor, dict_get d ''item'' (JStr []), dict_get d ''price'' (JStr []),
      dict_get d ''category'' (JStr [])]"

definition append_receipt :: "json \<Rightarrow> sheets \<Rightarrow> (exn + payload) \<times> sheets" where
  "append_receipt data sh =
     (case (if service sh then Inr sh else auth sh) of
        Inl e \<Rightarrow> (Inl e, sh)
      | Inr sh1 \<Rightarrow>
          (case receipt_values data of
             Inl e \<Rightarrow> (Inl e, sh1)
           | Inr values \<Rightarrow>
               (case execute_fault sh1 of
                  Some e \<Rightarrow> (Inl e, sh1)
                | None \<Rightarrow>
                    (Inr [(''status'', PStr [Lit ''success'']),
                          (''rows_added'', PNat (length values))],
                     sh1\<lparr>rows := rows sh1 @ values\<rparr>))))"

section \<open>Tools\<close>

text \<open>
  Each tool is a \<^verbatim>\<open>try\<close> block and its handlers. The block is the function named
  \<open>_try\<close>; it returns the exception it raises, or its reply. The tool applies the
  handlers. The Gemini client and the image reader are parameters: what they answer is
  not the server's code.
\<close>

datatype request = OcrRequest string | ClassifyRequest string json

definition error_reply :: "exn \<Rightarrow> reply" where
  "error_reply e = Dumps [(''error'', PStr [StrExn e])]"

definition extract_receipt_text_try ::
  "(string \<Rightarrow> exn + string) \<Rightarrow> (request \<Rightarrow> exn + response) \<Rightarrow> string \<Rightarrow> exn + reply" where
  "extract_receipt_text_try load_image_as_base64 generate_content image_path =
     and_then (load_image_as_base64 image_path) (\<lambda>image_b64.
     and_then (generate_content (OcrRequest image_b64)) (\<lambda>response.
     Inr (Dumps [(''raw_text'', PStr [Lit (parse_response response)])])))"

definition extract_receipt_text ::
  "(string \<Rightarrow> exn + string) \<Rightarrow> (request \<Rightarrow> exn + response) \<Rightarrow> string \<Rightarrow> exn + reply" where
  "extract_receipt_text load_image_as_base64 generate_content image_path =
     (case extract_receipt_text_try load_image_as_base64 generate_content image_path of
        Inl e \<Rightarrow> Inr (error_reply e)
      | Inr out \<Rightarrow> Inr out)"

definition structure_receipt_text_try ::
  "(request \<Rightarrow> exn + response) \<Rightarrow> string \<Rightarrow> store \<Rightarrow> (exn + reply) \<times> store" where
  "structure_receipt_text_try generate_content raw_text st =
     (case load_categories st of
        (Inl e, st1) \<Rightarrow> (Inl e, st1)
      | (Inr categories, st1) \<Rightarrow>
          (and_then (generate_content (ClassifyRequest raw_text categories)) (\<lambda>response.
           Inr (Raw (parse_response response))), st1))"

definition structure_receipt_text ::
  "(request \<Rightarrow> exn + response) \<Rightarrow> string \<Rightarrow> store \<Rightarrow> (exn + reply) \<times> store" where
  "structure_receipt_text generate_content raw_text st =
     (case structure_receipt_text_try generate_content raw_text st of
        (Inl e, st1) \<Rightarrow> (Inr (error_reply e), st1)
      | (Inr out, st1) \<Rightarrow> (Inr out, st1))"

subsection \<open>append_to_sheet\<close>

definition expected_keys :: "string list" where
  "expected_keys = [''vendor'', ''date'', ''line_items'']"

definition item_keys :: "string list" where
  "item_keys = [''item'', ''price'', ''category'']"

text \<open>\<^verbatim>\<open>isinstance(x, dict)\<close>; \<^verbatim>\<open>isinstance(x, list)\<close>, with the list when it is one.\<close>

fun is_dict :: "json \<Rightarrow> bool" where
  "is_dict (JObj d) = True"
| "is_dict _ = False"

fun as_list :: "json \<Rightarrow> json list option" where
  "as_list (JArr xs) = Some xs"
| "as_list _ = None"

text \<open>The loop over \<^verbatim>\<open>data["line_items"]\<close>: the first item that lacks a key, if any.\<close>

fun check_line_items :: "json list \<Rightarrow> exn + json option" where
  "check_line_items [] = Inr None"
| "check_line_items (li # lis) =
     (case keys_within item_keys li of
        Inl e \<Rightarrow> Inl e
      | Inr False \<Rightarrow> Inr (Some li)
      | Inr True \<Rightarrow> check_line_items lis)"

definition missing_keys_reply :: "json \<Rightarrow> reply" where
  "missing_keys_reply data =
     Dumps [(''error'', PStr [Lit ''Invalid JSON: missing required keys '', StrKeys expected_keys]),
            (''raw'', PJson data)]"

definition not_a_list_reply :: "json \<Rightarrow> reply" where
  "not_a_list_reply data =
     Dumps [(''error'', PStr [Lit ''line_items must be a list'']), (''raw'', PJson data)]"

definition line_item_reply :: "json \<Rightarrow> json \<Rightarrow> reply" where
  "line_item_reply li data =
     Dumps [(''error'', PStr [Lit ''Invalid line_item format '', StrJson li,
                              Lit ''. Must include item, price, and category.'']),
            (''raw'', PJson data)]"

definition invalid_json_reply :: "string \<Rightarrow> reply" where
  "invalid_json_reply structured_json =
     Dumps [(''error'', PStr [Lit ''Invalid JSON received from LLM'']),
            (''raw'', PStr [Lit structured_json])]"

definition exception_reply :: "exn \<Rightarrow> string \<Rightarrow> reply" where
  "exception_reply e structured_json =
     Dumps [(''error'', PStr [StrExn e]), (''raw'', PStr [Lit structured_json])]"

text \<open>
  \<open>loads\<close> is \<^verbatim>\<open>json.loads\<close>: \<open>None\<close> where it raises \<^verbatim>\<open>JSONDecodeError\<close>.
\<close>

definition append_to_sheet_try ::
  "(string \<Rightarrow> json option) \<Rightarrow> string \<Rightarrow> sheets \<Rightarrow> (exn + reply) \<times> sheets" where
  "append_to_sheet_try loads structured_json sh =
     (case loads structured_json of
        None \<Rightarrow> (Inl JSONDecodeError, sh)
      | Some data \<Rightarrow>
          (case all_in expected_keys data of
             Inl e \<Rightarrow> (Inl e, sh)
           | Inr False \<Rightarrow> (Inr (missing_keys_reply data), sh)
           | Inr True \<Rightarrow>
               (case py_getitem data ''line_items'' of
                  Inl e \<Rightarrow> (Inl e, sh)
                | Inr line_items \<Rightarrow>
                    (case as_list line_items of
                       None \<Rightarrow> (Inr (not_a_list_reply data), sh)
                     | Some lis \<Rightarrow>
                         (case check_line_items lis of
                            Inl e \<Rightarrow> (Inl e, sh)
                          | Inr (Some li) \<Rightarrow> (Inr (line_item_reply li data), sh)
                          | Inr None \<Rightarrow>
                              (case append_receipt data sh of
                                 (Inl e, sh1) \<Rightarrow> (Inl e, sh1)
                               | (Inr result, sh1) \<Rightarrow> (Inr (Dumps result), sh1)))))))"

definition append_to_sheet ::
  "(string \<Rightarrow> json option) \<Rightarrow> string \<Rightarrow> sheets \<Rightarrow> (exn + reply) \<times> sheets" where
  "append_to_sheet loads structured_json sh =
     (case append_to_sheet_try loads structured_json sh of
        (Inr out, sh1) \<Rightarrow> (Inr out, sh1)
      | (Inl e, sh1) \<Rightarrow>
          (if e = JSONDecodeError then (Inr (invalid_json_reply structured_json), sh1)
           else (Inr (exception_reply e structured_json), sh1)))"

subsection \<open>add_category and remove_category\<close>

definition add_category_try :: "string \<Rightarrow> store \<Rightarrow> (exn + reply) \<times> store" where
  "add_category_try new_category st =
     (case load_categories st of
        (Inl e, st1) \<Rightarrow> (Inl e, st1)
      | (Inr categories, st1) \<Rightarrow>
          (case py_in new_category categories of
             Inl e \<Rightarrow> (Inl e, st1)
           | Inr False \<Rightarrow>
               (case py_append categories (JStr new_category) of
                  Inl e \<Rightarrow> (Inl e, st1)
                | Inr categories1 \<Rightarrow>
                    (Inr (Dumps [(''status'', PStr [Lit ''added'']),
                                 (''categories'', PJson categories1)]),
                     save_categories categories1 st1))
           | Inr True \<Rightarrow>
               (Inr (Dumps [(''status'', PStr [Lit ''exists'']),
                            (''categories'', PJson categories)]), st1)))"

definition add_category :: "string \<Rightarrow> store \<Rightarrow> (exn + reply) \<times> store" where
  "add_category new_category st =
     (case add_category_try new_category st of
        (Inl e, st1) \<Rightarrow> (Inr (error_reply e), st1)
      | (Inr out, st1) \<Rightarrow> (Inr out, st1))"

definition remove_category_try :: "string \<Rightarrow> store \<Rightarrow> (exn + reply) \<times> store" where
  "remove_category_try category st =
     (case load_categories st of
        (Inl e, st1) \<Rightarrow> (Inl e, st1)
      | (Inr categories, st1) \<Rightarrow>
          (case py_in category categories of
             Inl e \<Rightarrow> (Inl e, st1)
           | Inr True \<Rightarrow>
               (case py_remove categories (JStr category) of
                  Inl e \<Rightarrow> (Inl e, st1)
                | Inr categories1 \<Rightarrow>
                    (Inr (Dumps [(''status'', PStr [Lit ''removed'']),
                                 (''categories'', PJson categories1)]),
                     save_categories categories1 st1))
           | Inr False \<Rightarrow>
               (Inr (Dumps [(''status'', PStr [Lit ''not_found'']),
                            (''categories'', PJson categories)]), st1)))"

definition remove_category :: "string \<Rightarrow> store \<Rightarrow> (exn + reply) \<times> store" where
  "remove_category category st =
     (case remove_category_try category st of
        (Inl e, st1) \<Rightarrow> (Inr (error_reply e), st1)
      | (Inr out, st1) \<Rightarrow> (Inr out, st1))"

section \<open>Vocabulary of the specification\<close>

text \<open>
  The words the specification uses and the code has no function for. A validated
  record (section 4.2 of the specification): an object with the three required keys,
  whose \<open>line_items\<close> is a sequence of objects that each hold \<open>item\<close>, \<open>price\<close> and
  \<open>category\<close>.
\<close>

fun has_item_keys :: "json \<Rightarrow> bool" where
  "has_item_keys (JObj d) = (set item_keys \<subseteq> set (map fst d))"
| "has_item_keys _ = False"

fun valid_items :: "json \<Rightarrow> bool" where
  "valid_items (JArr lis) = list_all has_item_keys lis"
| "valid_items _ = False"

fun valid_record :: "json \<Rightarrow> bool" where
  "valid_record (JObj d) =
     (set expected_keys \<subseteq> set (map fst d) \<and>
      (case map_of d ''line_items'' of None \<Rightarrow> False | Some v \<Rightarrow> valid_items v))"
| "valid_record _ = False"

text \<open>A price below zero, and a line item that has one.\<close>

fun negative :: "json \<Rightarrow> bool" where
  "negative (JInt i) = (i < 0)"
| "negative (JFloat r) = (r < 0)"
| "negative _ = False"

fun negative_price :: "json \<Rightarrow> bool" where
  "negative_price (JObj d) = (case map_of d ''price'' of None \<Rightarrow> False | Some p \<Rightarrow> negative p)"
| "negative_price _ = False"

text \<open>The keys that section 4.2 calls missing: the required ones the object lacks.\<close>

definition missing_keys_spec :: "(string \<times> json) list \<Rightarrow> string list" where
  "missing_keys_spec d = filter (\<lambda>k. k \<notin> set (map fst d)) expected_keys"

text \<open>
  The store that section 6 documents is \<^verbatim>\<open>{"categories": [string, ...]}\<close>; an existing
  store of any other content is corrupt.
\<close>

fun is_str :: "json \<Rightarrow> bool" where
  "is_str (JStr s) = True"
| "is_str _ = False"

fun corrupt_spec :: "contents \<Rightarrow> bool" where
  "corrupt_spec Garbled = True"
| "corrupt_spec (Doc (JObj d)) =
     (case map_of d ''categories'' of
        Some (JArr cs) \<Rightarrow> \<not> list_all is_str cs
      | _ \<Rightarrow> True)"
| "corrupt_spec (Doc _) = True"

text \<open>Whether a reply is \<^verbatim>\<open>json.dumps\<close> of a dict, and whether that dict has an \<open>error\<close> key.\<close>

fun is_dumps :: "reply \<Rightarrow> bool" where
  "is_dumps (Dumps p) = True"
| "is_dumps (Raw t) = False"

fun has_error_field :: "reply \<Rightarrow> bool" where
  "has_error_field (Dumps p) = (''error'' \<in> set (map fst p))"
| "has_error_field (Raw t) = False"

section \<open>Fixtures\<close>

text \<open>
  Collaborators and states for the concrete runs below: a spreadsheet that is empty
  and answers every request, a Gemini client that answers with no candidate, one that
  answers with two candidates that carry text, one that raises, and an image reader
  that finds no file.
\<close>

definition empty_sheet :: sheets where
  "empty_sheet = \<lparr>service = False, auth_fault = None, execute_fault = None, rows = []\<rparr>"

definition no_candidates :: "request \<Rightarrow> exn + response" where
  "no_candidates request = Inr []"

definition two_candidates :: "request \<Rightarrow> exn + response" where
  "two_candidates request =
     Inr [Candidate (Some [Part (Some ''Milk''), Part None, Part (Some [])]),
          Candidate None,
          Candidate (Some [Part (Some ''Dairy'')])]"

definition gemini_down :: "request \<Rightarrow> exn + response" where
  "gemini_down request = Inl (External ''503 Service Unavailable'')"

definition no_such_image :: "string \<Rightarrow> exn + string" where
  "no_such_image image_path = Inl (External ''No such file or directory'')"

definition default_store :: store where
  "default_store = Some (Doc (JObj [(''categories'', JArr (map JStr default_categories))]))"

text \<open>
  Decoded receipts: two priced items; an item followed by a discount line; a single
  refund line; no item at all; no \<open>line_items\<close> key; \<open>line_items\<close> that is a text;
  and a second item without a category.
\<close>

definition groceries :: "(string \<times> json) list" where
  "groceries =
     [(''vendor'', JStr ''Corner Shop''), (''date'', JStr ''01/02/2024''),
      (''total_amount'', JFloat (11 / 2)),
      (''line_items'',
         JArr [JObj [(''item'', JStr ''Milk''), (''price'', JFloat (7 / 2)), (''category'', JStr ''Dairy'')],
               JObj [(''item'', JStr ''Bread''), (''price'', JInt 2), (''category'', JStr ''Bakery'')]])]"

definition discounted :: "(string \<times> json) list" where
  "discounted =
     [(''vendor'', JStr ''Corner Shop''), (''date'', JStr ''01/02/2024''),
      (''line_items'',
         JArr [JObj [(''item'', JStr ''A''), (''price'', JInt 10), (''category'', JStr ''Snacks'')],
               JObj [(''item'', JStr ''B''), (''price'', JInt (- 2)), (''category'', JStr ''Snacks'')]])]"

definition refund :: "(string \<times> json) list" where
  "refund =
     [(''vendor'', JStr ''Corner Shop''), (''date'', JStr ''01/02/2024''),
      (''line_items'',
         JArr [JObj [(''item'', JStr ''A''), (''price'', JInt (- 5)), (''category'', JStr ''Snacks'')]])]"

definition no_items :: "(string \<times> json) list" where
  "no_items =
     [(''vendor'', JStr ''Corner Shop''), (''date'', JStr ''01/02/2024''), (''line_items'', JArr [])]"

definition no_line_items :: "(string \<times> json) list" where
  "no_line_items = [(''vendor'', JStr ''Corner Shop''), (''date'', JStr ''01/02/2024'')]"

definition line_items_text :: "(string \<times> json) list" where
  "line_items_text =
     [(''vendor'', JStr ''Corner Shop''), (''date'', JStr ''01/02/2024''),
      (''line_items'', JStr ''Milk 3.50'')]"

definition uncategorised :: "(string \<times> json) list" where
  "uncategorised =
     [(''vendor'', JStr ''Corner Shop''), (''date'', JStr ''01/02/2024''),
      (''line_items'',
         JArr [JObj [(''item'', JStr ''Milk''), (''price'', JInt 3), (''category'', JStr ''Dairy'')],
               JObj [(''item'', JStr ''Bread''), (''price'', JInt 2)],
               JObj [(''item'', JStr ''Jam'')]])]"

section \<open>The category registry\<close>

text \<open>
  C7. When the store does not exist, \<^verbatim>\<open>load_categories\<close> returns the nine default
  categories (Snacks, Vegetables, Meat, Clothes, Makeup/Skincare, Condiments, Dairy,
  Beverages, Bakery), leaves a store that holds them, and a second call on that store
  returns the same list.
\<close>

theorem load_bootstraps_default:
  "default_categories =
     [''Snacks'', ''Vegetables'', ''Meat'', ''Clothes'', ''Makeup/Skincare'',
      ''Condiments'', ''Dairy'', ''Beverages'', ''Bakery'']
   \<and> length default_categories = 9
   \<and> load_categories None = (Inr (JArr (map JStr default_categories)), default_store)
   \<and> load_categories default_store = (Inr (JArr (map JStr default_categories)), default_store)"
  by (simp add: load_categories_def default_store_def default_categories_def dict_get_def)

text \<open>
  C6. For every list \<open>cs\<close> of category strings, \<^verbatim>\<open>save_categories(cs)\<close> followed by
  \<^verbatim>\<open>load_categories()\<close> returns \<open>cs\<close>: the same strings in the same order, whatever the
  store held before.
\<close>

theorem save_load_roundtrip:
  "load_categories (save_categories (JArr (map JStr cs)) st) =
     (Inr (JArr (map JStr cs)), save_categories (JArr (map JStr cs)) st)"
  by (simp add: load_categories_def save_categories_def dict_get_def)

text \<open>
  C5. \<^verbatim>\<open>add_category\<close> does not trim its argument: with the default store, where
  \<open>Dairy\<close> is present, adding \<open>Dairy\<close> with a leading space answers \<open>added\<close> and stores
  the name with its space as a tenth category.
\<close>

theorem add_category_keeps_whitespace:
  "add_category '' Dairy'' default_store =
     (Inr (Dumps [(''status'', PStr [Lit ''added'']),
                  (''categories'', PJson (JArr (map JStr (default_categories @ ['' Dairy'']))))]),
      Some (Doc (JObj [(''categories'', JArr (map JStr (default_categories @ ['' Dairy''])))])))"
  by (simp add: add_category_def add_category_try_def load_categories_def default_store_def
      default_categories_def dict_get_def save_categories_def)

text \<open>
  C8, as the specification states it, fails: a store that exists and holds the empty
  object is not the documented \<^verbatim>\<open>{"categories": [...]}\<close>, and \<^verbatim>\<open>load_categories\<close>
  returns the empty list for it without an error.
\<close>

theorem load_empty_object_counterexample:
  "corrupt_spec (Doc (JObj []))
   \<and> load_categories (Some (Doc (JObj []))) = (Inr (JArr []), Some (Doc (JObj [])))"
  by (simp add: load_categories_def dict_get_def)

text \<open>
  C8, amended. On an existing store \<^verbatim>\<open>load_categories\<close> raises \<^verbatim>\<open>JSONDecodeError\<close>
  when the text is not JSON and \<^verbatim>\<open>AttributeError\<close> when it decodes to a value that is
  not an object; on an object it never fails: it returns the empty list when the key
  \<open>categories\<close> is absent and the value under the key, unchecked, when it is present.
  The store is left as it was in every case.
\<close>

theorem load_existing_store:
  "load_categories (Some Garbled) = (Inl JSONDecodeError, Some Garbled)
   \<and> (\<not> is_dict data \<longrightarrow>
        load_categories (Some (Doc data)) = (Inl AttributeError, Some (Doc data)))
   \<and> (map_of d ''categories'' = None \<longrightarrow>
        load_categories (Some (Doc (JObj d))) = (Inr (JArr []), Some (Doc (JObj d))))
   \<and> (map_of d ''categories'' = Some v \<longrightarrow>
        load_categories (Some (Doc (JObj d))) = (Inr v, Some (Doc (JObj d))))"
  by (cases data) (simp_all add: load_categories_def dict_get_def)

theorem load_existing_store_witness:
  "load_categories (Some Garbled) = (Inl JSONDecodeError, Some Garbled)
   \<and> load_categories (Some (Doc (JArr [JStr ''Dairy'']))) =
       (Inl AttributeError, Some (Doc (JArr [JStr ''Dairy''])))
   \<and> load_categories (Some (Doc (JObj [(''cats'', JArr [])]))) =
       (Inr (JArr []), Some (Doc (JObj [(''cats'', JArr [])])))
   \<and> load_categories (Some (Doc (JObj [(''categories'', JInt 5)]))) =
       (Inr (JInt 5), Some (Doc (JObj [(''categories'', JInt 5)])))"
  using load_existing_store [of "JArr [JStr ''Dairy'']" "[(''cats'', JArr [])]" "JInt 5"]
    load_existing_store [of "JNull" "[(''categories'', JInt 5)]" "JInt 5"]
  by simp

section \<open>Validation and append\<close>

subsection \<open>Auxiliary facts\<close>

lemma all_in_dict: "all_in ks (JObj d) = Inr (set ks \<subseteq> set (map fst d))"
  by (induction ks) (auto split: bool.splits)

lemma check_line_items_valid: "list_all has_item_keys lis \<Longrightarrow> check_line_items lis = Inr None"
proof (induction lis)
  case Nil
  show ?case by simp
next
  case (Cons li lis)
  then show ?case by (cases li) simp_all
qed

lemma check_line_items_offending:
  assumes "list_all has_item_keys pre" and "\<not> set item_keys \<subseteq> set (map fst li)"
  shows "check_line_items (pre @ JObj li # post) = Inr (Some (JObj li))"
  using assms
proof (induction pre)
  case Nil
  then show ?case by simp
next
  case (Cons x pre)
  then show ?case by (cases x) simp_all
qed

lemma valid_items_are_dicts: "list_all has_item_keys lis \<Longrightarrow> \<exists>os. lis = map JObj os"
proof (induction lis)
  case Nil
  show ?case by simp
next
  case (Cons li lis)
  then obtain os where "lis = map JObj os" by auto
  moreover from Cons.prems obtain d where "li = JObj d" by (cases li) simp_all
  ultimately have "li # lis = map JObj (d # os)" by simp
  then show ?case by (rule exI)
qed

lemma dict_get_present:
  assumes "k \<in> set (map fst d)"
  shows "\<exists>v. map_of d k = Some v \<and> dict_get d k dflt = v"
proof (cases "map_of d k")
  case None
  with assms show ?thesis by (simp add: map_of_eq_None_iff)
next
  case (Some v)
  then show ?thesis by (simp add: dict_get_def)
qed

lemma build_values_dicts:
  "build_values date vendor (map JObj os) = Inr (map (row_of date vendor) os)"
  by (induction os) (simp_all add: and_then_def row_of_def)

lemma receipt_values_dict:
  assumes "map_of d ''line_items'' = Some (JArr (map JObj os))"
  shows "receipt_values (JObj d) =
           Inr (map (row_of (dict_get d ''date'' (JStr [])) (dict_get d ''vendor'' (JStr []))) os)"
  using assms by (simp add: receipt_values_def and_then_def dict_get_def build_values_dicts)

lemma append_receipt_dict:
  assumes "map_of d ''line_items'' = Some (JArr (map JObj os))"
    and "auth_fault sh = None" and "execute_fault sh = None"
  shows "append_receipt (JObj d) sh =
           (Inr [(''status'', PStr [Lit ''success'']), (''rows_added'', PNat (length os))],
            sh\<lparr>service := True,
               rows := rows sh @ map (row_of (dict_get d ''date'' (JStr []))
                                             (dict_get d ''vendor'' (JStr []))) os\<rparr>)"
  using assms by (cases "service sh") (simp_all add: append_receipt_def auth_def receipt_values_dict)

lemma validated_proceeds:
  assumes "loads s = Some data" and "valid_record data"
  shows "append_to_sheet_try loads s sh =
           (case append_receipt data sh of
              (Inl e, sh1) \<Rightarrow> (Inl e, sh1)
            | (Inr result, sh1) \<Rightarrow> (Inr (Dumps result), sh1))"
proof -
  from assms(2) obtain d where d: "data = JObj d" by (cases data) simp_all
  with assms(2) have keys: "set expected_keys \<subseteq> set (map fst d)" by simp
  from assms(2) d obtain v where v: "map_of d ''line_items'' = Some v" and "valid_items v"
    by (cases "map_of d ''line_items''") simp_all
  then obtain lis where lis: "v = JArr lis" and ok: "list_all has_item_keys lis"
    by (cases v) simp_all
  show ?thesis
    using assms(1) keys v
    by (simp add: append_to_sheet_try_def d lis all_in_dict check_line_items_valid [OF ok])
qed

lemma append_to_sheet_accepts:
  assumes "loads s = Some (JObj d)" and "valid_record (JObj d)"
    and "map_of d ''line_items'' = Some (JArr (map JObj os))"
    and "auth_fault sh = None" and "execute_fault sh = None"
  shows "append_to_sheet loads s sh =
           (Inr (Dumps [(''status'', PStr [Lit ''success'']), (''rows_added'', PNat (length os))]),
            sh\<lparr>service := True,
               rows := rows sh @ map (row_of (dict_get d ''date'' (JStr []))
                                             (dict_get d ''vendor'' (JStr []))) os\<rparr>)"
  using validated_proceeds [of loads s "JObj d" sh, OF assms(1,2)]
  by (simp add: append_to_sheet_def append_receipt_dict [OF assms(3,4,5)])

lemma rejects_undecodable:
  "loads s = None \<Longrightarrow> append_to_sheet loads s sh = (Inr (invalid_json_reply s), sh)"
  by (simp add: append_to_sheet_def append_to_sheet_try_def)

lemma rejects_missing_keys:
  assumes "loads s = Some (JObj d)" and "\<not> set expected_keys \<subseteq> set (map fst d)"
  shows "append_to_sheet loads s sh = (Inr (missing_keys_reply (JObj d)), sh)"
  using assms by (simp add: append_to_sheet_def append_to_sheet_try_def all_in_dict)

lemma rejects_non_list:
  assumes "loads s = Some (JObj d)" and "set expected_keys \<subseteq> set (map fst d)"
    and "map_of d ''line_items'' = Some v" and "as_list v = None"
  shows "append_to_sheet loads s sh = (Inr (not_a_list_reply (JObj d)), sh)"
  using assms by (simp add: append_to_sheet_def append_to_sheet_try_def all_in_dict)

lemma rejects_line_item:
  assumes "loads s = Some (JObj d)" and "set expected_keys \<subseteq> set (map fst d)"
    and "map_of d ''line_items'' = Some (JArr (pre @ JObj li # post))"
    and "list_all has_item_keys pre" and "\<not> set item_keys \<subseteq> set (map fst li)"
  shows "append_to_sheet loads s sh = (Inr (line_item_reply (JObj li) (JObj d)), sh)"
  using assms(1,2,3)
  by (simp add: append_to_sheet_def append_to_sheet_try_def all_in_dict
      check_line_items_offending [OF assms(4,5)])

subsection \<open>Rows appended for a validated receipt\<close>

text \<open>
  C2. For a validated receipt in which no line item has a negative price, with a
  spreadsheet that answers, \<^verbatim>\<open>append_to_sheet\<close> returns success with \<open>rows_added\<close>
  equal to the number of line items, and the rows it appends are, index by index,
  \<open>[date, vendor, item, price, category]\<close> of the line item at that index.
\<close>

theorem rows_match_line_items:
  assumes "loads s = Some (JObj d)" and "valid_record (JObj d)"
    and "map_of d ''vendor'' = Some vendor" and "map_of d ''date'' = Some date"
    and "map_of d ''line_items'' = Some (JArr lis)"
    and "\<forall>li \<in> set lis. \<not> negative_price li"
    and "auth_fault sh = None" and "execute_fault sh = None"
  shows "\<exists>values.
           append_to_sheet loads s sh =
             (Inr (Dumps [(''status'', PStr [Lit ''success'']),
                          (''rows_added'', PNat (length lis))]),
              sh\<lparr>service := True, rows := rows sh @ values\<rparr>)
           \<and> length values = length lis
           \<and> (\<forall>i < length lis. \<exists>li item price category.
                 lis ! i = JObj li \<and> map_of li ''item'' = Some item
                 \<and> map_of li ''price'' = Some price \<and> map_of li ''category'' = Some category
                 \<and> values ! i = [date, vendor, item, price, category])"
proof -
  from assms(2,5) have ok: "list_all has_item_keys lis" by simp
  then obtain os where os: "lis = map JObj os" using valid_items_are_dicts by blast
  let ?new_rows = "map (row_of date vendor) os"
  have run: "append_to_sheet loads s sh =
      (Inr (Dumps [(''status'', PStr [Lit ''success'']), (''rows_added'', PNat (length lis))]),
       sh\<lparr>service := True, rows := rows sh @ ?new_rows\<rparr>)"
    using append_to_sheet_accepts [of loads s d os sh, OF assms(1,2) assms(5) [unfolded os] assms(7,8)]
      assms(3,4)
    by (simp add: os dict_get_def)
  have rows: "\<exists>li item price category.
      lis ! i = JObj li \<and> map_of li ''item'' = Some item
      \<and> map_of li ''price'' = Some price \<and> map_of li ''category'' = Some category
      \<and> ?new_rows ! i = [date, vendor, item, price, category]" if i: "i < length lis" for i
  proof -
    from i os have at: "lis ! i = JObj (os ! i)" and len: "i < length os" by simp_all
    from ok i have "has_item_keys (lis ! i)" by (simp add: list_all_length)
    with at have keys: "set item_keys \<subseteq> set (map fst (os ! i))" by simp
    obtain item where item: "map_of (os ! i) ''item'' = Some item"
        "dict_get (os ! i) ''item'' (JStr []) = item"
      using dict_get_present [of "''item''" "os ! i"] keys by (auto simp: item_keys_def)
    obtain price where price: "map_of (os ! i) ''price'' = Some price"
        "dict_get (os ! i) ''price'' (JStr []) = price"
      using dict_get_present [of "''price''" "os ! i"] keys by (auto simp: item_keys_def)
    obtain category where category: "map_of (os ! i) ''category'' = Some category"
        "dict_get (os ! i) ''category'' (JStr []) = category"
      using dict_get_present [of "''category''" "os ! i"] keys by (auto simp: item_keys_def)
    have "?new_rows ! i = [date, vendor, item, price, category]"
      using len item(2) price(2) category(2) by (simp add: row_of_def)
    with at item(1) price(1) category(1) show ?thesis by blast
  qed
  have "length ?new_rows = length lis" by (simp add: os)
  with run rows show ?thesis by blast
qed

theorem rows_match_line_items_witness:
  "append_to_sheet (map_of [(''receipt'', JObj groceries)]) ''receipt'' empty_sheet =
     (Inr (Dumps [(''status'', PStr [Lit ''success'']), (''rows_added'', PNat 2)]),
      empty_sheet\<lparr>service := True,
        rows := [[JStr ''01/02/2024'', JStr ''Corner Shop'', JStr ''Milk'', JFloat (7 / 2), JStr ''Dairy''],
                 [JStr ''01/02/2024'', JStr ''Corner Shop'', JStr ''Bread'', JInt 2, JStr ''Bakery'']]\<rparr>)"
proof -
  let ?milk = "JObj [(''item'', JStr ''Milk''), (''price'', JFloat (7 / 2)), (''category'', JStr ''Dairy'')]"
  let ?bread = "JObj [(''item'', JStr ''Bread''), (''price'', JInt 2), (''category'', JStr ''Bakery'')]"
  have h1: "map_of [(''receipt'', JObj groceries)] ''receipt'' = Some (JObj groceries)" by simp
  have h2: "valid_record (JObj groceries)"
    by (simp add: groceries_def expected_keys_def item_keys_def)
  have h3: "map_of groceries ''vendor'' = Some (JStr ''Corner Shop'')" by (simp add: groceries_def)
  have h4: "map_of groceries ''date'' = Some (JStr ''01/02/2024'')" by (simp add: groceries_def)
  have h5: "map_of groceries ''line_items'' = Some (JArr [?milk, ?bread])"
    by (simp add: groceries_def)
  have h6: "\<forall>li \<in> set [?milk, ?bread]. \<not> negative_price li" by simp
  have h7: "auth_fault empty_sheet = None" and h8: "execute_fault empty_sheet = None"
    by (simp_all add: empty_sheet_def)
  from rows_match_line_items [of "map_of [(''receipt'', JObj groceries)]" "''receipt''" groceries,
      OF h1 h2 h3 h4 h5 h6 h7 h8]
  obtain vs where run: "append_to_sheet (map_of [(''receipt'', JObj groceries)]) ''receipt'' empty_sheet =
        (Inr (Dumps [(''status'', PStr [Lit ''success'']), (''rows_added'', PNat (length [?milk, ?bread]))]),
         empty_sheet\<lparr>service := True, rows := rows empty_sheet @ vs\<rparr>)"
    and len: "length vs = length [?milk, ?bread]"
    and rows: "\<forall>i < length [?milk, ?bread]. \<exists>li item price category.
                 [?milk, ?bread] ! i = JObj li \<and> map_of li ''item'' = Some item
                 \<and> map_of li ''price'' = Some price \<and> map_of li ''category'' = Some category
                 \<and> vs ! i = [JStr ''01/02/2024'', JStr ''Corner Shop'', item, price, category]"
    by blast
  from rows [rule_format, of 0]
  have r0: "vs ! 0 = [JStr ''01/02/2024'', JStr ''Corner Shop'', JStr ''Milk'', JFloat (7 / 2), JStr ''Dairy'']"
    by auto
  from rows [rule_format, of 1]
  have r1: "vs ! 1 = [JStr ''01/02/2024'', JStr ''Corner Shop'', JStr ''Bread'', JInt 2, JStr ''Bakery'']"
    by auto
  from len have "vs = [vs ! 0, vs ! 1]"
    by (intro nth_equalityI) (auto simp: less_Suc_eq)
  with r0 r1 have "vs = [[JStr ''01/02/2024'', JStr ''Corner Shop'', JStr ''Milk'', JFloat (7 / 2), JStr ''Dairy''],
      [JStr ''01/02/2024'', JStr ''Corner Shop'', JStr ''Bread'', JInt 2, JStr ''Bakery'']]"
    by simp
  with run show ?thesis by (simp add: empty_sheet_def)
qed

text \<open>
  C3. For a validated receipt whose first line item has a negative price, with a
  spreadsheet that answers, the first appended row is that item's own row, its
  negative price unchanged; the other items follow. A receipt with the single item
  \<open>A\<close> at \<open>-5\<close> gives exactly one row, with price \<open>-5\<close>.
\<close>

theorem leading_negative_kept:
  assumes "loads s = Some (JObj d)" and "valid_record (JObj d)"
    and "map_of d ''vendor'' = Some vendor" and "map_of d ''date'' = Some date"
    and "map_of d ''line_items'' = Some (JArr (JObj li # lis))"
    and "map_of li ''item'' = Some item" and "map_of li ''price'' = Some price"
    and "map_of li ''category'' = Some category"
    and "negative price"
    and "auth_fault sh = None" and "execute_fault sh = None"
  shows "\<exists>values.
           append_to_sheet loads s sh =
             (Inr (Dumps [(''status'', PStr [Lit ''success'']),
                          (''rows_added'', PNat (Suc (length lis)))]),
              sh\<lparr>service := True,
                 rows := rows sh @ [date, vendor, item, price, category] # values\<rparr>)
           \<and> length values = length lis"
proof -
  from assms(2,5) have "list_all has_item_keys lis" by simp
  then obtain os where os: "lis = map JObj os" using valid_items_are_dicts by blast
  have items: "map_of d ''line_items'' = Some (JArr (map JObj (li # os)))"
    using assms(5) by (simp add: os)
  have "append_to_sheet loads s sh =
      (Inr (Dumps [(''status'', PStr [Lit ''success'']), (''rows_added'', PNat (Suc (length lis)))]),
       sh\<lparr>service := True,
          rows := rows sh @ [date, vendor, item, price, category] # map (row_of date vendor) os\<rparr>)"
    using append_to_sheet_accepts [of loads s d "li # os" sh, OF assms(1,2) items assms(10,11)]
      assms(3,4,6,7,8)
    by (simp add: os dict_get_def row_of_def)
  moreover have "length (map (row_of date vendor) os) = length lis" by (simp add: os)
  ultimately show ?thesis by blast
qed

theorem leading_negative_kept_witness:
  "append_to_sheet (map_of [(''receipt'', JObj refund)]) ''receipt'' empty_sheet =
     (Inr (Dumps [(''status'', PStr [Lit ''success'']), (''rows_added'', PNat 1)]),
      empty_sheet\<lparr>service := True,
        rows := [[JStr ''01/02/2024'', JStr ''Corner Shop'', JStr ''A'', JInt (- 5), JStr ''Snacks'']]\<rparr>)"
proof -
  let ?li = "[(''item'', JStr ''A''), (''price'', JInt (- 5)), (''category'', JStr ''Snacks'')]"
  have h1: "map_of [(''receipt'', JObj refund)] ''receipt'' = Some (JObj refund)" by simp
  have h2: "valid_record (JObj refund)"
    by (simp add: refund_def expected_keys_def item_keys_def)
  have h3: "map_of refund ''vendor'' = Some (JStr ''Corner Shop'')" by (simp add: refund_def)
  have h4: "map_of refund ''date'' = Some (JStr ''01/02/2024'')" by (simp add: refund_def)
  have h5: "map_of refund ''line_items'' = Some (JArr (JObj ?li # []))" by (simp add: refund_def)
  have h6: "map_of ?li ''item'' = Some (JStr ''A'')" by simp
  have h7: "map_of ?li ''price'' = Some (JInt (- 5))" by simp
  have h8: "map_of ?li ''category'' = Some (JStr ''Snacks'')" by simp
  have h9: "negative (JInt (- 5))" by simp
  have h10: "auth_fault empty_sheet = None" and h11: "execute_fault empty_sheet = None"
    by (simp_all add: empty_sheet_def)
  from leading_negative_kept [of "map_of [(''receipt'', JObj refund)]" "''receipt''" refund,
      OF h1 h2 h3 h4 h5 h6 h7 h8 h9 h10 h11]
  show ?thesis by (auto simp: empty_sheet_def)
qed

text \<open>
  C10. An object with the keys \<open>vendor\<close>, \<open>date\<close> and \<open>line_items\<close> whose
  \<open>line_items\<close> is the empty list passes validation; with a spreadsheet that answers,
  the reply is success with \<open>rows_added\<close> 0 and no row is written.
\<close>

theorem empty_receipt_succeeds:
  assumes "loads s = Some (JObj d)"
    and "set expected_keys \<subseteq> set (map fst d)"
    and "map_of d ''line_items'' = Some (JArr [])"
    and "auth_fault sh = None" and "execute_fault sh = None"
  shows "append_to_sheet loads s sh =
           (Inr (Dumps [(''status'', PStr [Lit ''success'']), (''rows_added'', PNat 0)]),
            sh\<lparr>service := True\<rparr>)"
proof -
  have valid: "valid_record (JObj d)" using assms(2,3) by simp
  have items: "map_of d ''line_items'' = Some (JArr (map JObj []))" using assms(3) by simp
  show ?thesis
    using append_to_sheet_accepts [of loads s d "[]" sh, OF assms(1) valid items assms(4,5)]
    by simp
qed

theorem empty_receipt_succeeds_witness:
  "append_to_sheet (map_of [(''receipt'', JObj no_items)]) ''receipt'' empty_sheet =
     (Inr (Dumps [(''status'', PStr [Lit ''success'']), (''rows_added'', PNat 0)]),
      \<lparr>service = True, auth_fault = None, execute_fault = None, rows = []\<rparr>)"
proof -
  have h1: "map_of [(''receipt'', JObj no_items)] ''receipt'' = Some (JObj no_items)" by simp
  have h2: "set expected_keys \<subseteq> set (map fst no_items)"
    by (simp add: no_items_def expected_keys_def)
  have h3: "map_of no_items ''line_items'' = Some (JArr [])" by (simp add: no_items_def)
  have h4: "auth_fault empty_sheet = None" and h5: "execute_fault empty_sheet = None"
    by (simp_all add: empty_sheet_def)
  from empty_receipt_succeeds [of "map_of [(''receipt'', JObj no_items)]" "''receipt''" no_items,
      OF h1 h2 h3 h4 h5]
  show ?thesis by (simp add: empty_sheet_def)
qed

text \<open>
  C1. \<^verbatim>\<open>append_receipt\<close> has no merge step: for the line items \<open>A\<close> at 10 and \<open>B\<close>
  at -2 it appends two rows, \<open>A\<close> still at 10 and \<open>B\<close> at -2, and reports
  \<open>rows_added\<close> 2, where its docstring and the specification give one row
  with price 8.
\<close>

theorem discount_line_gets_own_row:
  "append_to_sheet (map_of [(''receipt'', JObj discounted)]) ''receipt'' empty_sheet =
     (Inr (Dumps [(''status'', PStr [Lit ''success'']), (''rows_added'', PNat 2)]),
      \<lparr>service = True, auth_fault = None, execute_fault = None,
       rows = [[JStr ''01/02/2024'', JStr ''Corner Shop'', JStr ''A'', JInt 10, JStr ''Snacks''],
               [JStr ''01/02/2024'', JStr ''Corner Shop'', JStr ''B'', JInt (- 2), JStr ''Snacks'']]\<rparr>)"
  by (simp add: append_to_sheet_def append_to_sheet_try_def discounted_def expected_keys_def
      item_keys_def append_receipt_def auth_def receipt_values_def and_then_def dict_get_def
      empty_sheet_def)

subsection \<open>The validator\<close>

text \<open>
  C4, as the specification states it, fails: for an object that lacks only
  \<open>line_items\<close> the error message does not name exactly the missing key; it lists the
  three required keys.
\<close>

theorem missing_keys_message_counterexample:
  "missing_keys_spec no_line_items = [''line_items'']
   \<and> append_to_sheet (map_of [(''receipt'', JObj no_line_items)]) ''receipt'' empty_sheet =
       (Inr (Dumps [(''error'', PStr [Lit ''Invalid JSON: missing required keys '',
                                      StrKeys [''vendor'', ''date'', ''line_items'']]),
                    (''raw'', PJson (JObj no_line_items))]),
        empty_sheet)"
  by (simp add: missing_keys_spec_def no_line_items_def expected_keys_def append_to_sheet_def
      append_to_sheet_try_def missing_keys_reply_def)

text \<open>
  C4, amended. The checks run in this order, each ending the call with its own reply
  and an untouched spreadsheet: a text that \<^verbatim>\<open>json.loads\<close> rejects gives the
  invalid-JSON reply; a decoded object that lacks one of \<open>vendor\<close>, \<open>date\<close>,
  \<open>line_items\<close> gives the missing-keys reply, whose message lists all three required
  keys; \<open>line_items\<close> that is not a list gives the not-a-list reply; the first object
  in \<open>line_items\<close> that lacks one of \<open>item\<close>, \<open>price\<close>, \<open>category\<close> gives a reply that
  names that item; an object that passes every check goes on to \<^verbatim>\<open>append_receipt\<close>.
\<close>

theorem validator_checks_in_order:
  "(loads s = None \<longrightarrow> append_to_sheet loads s sh = (Inr (invalid_json_reply s), sh))
   \<and> (loads s = Some (JObj d) \<and> \<not> set expected_keys \<subseteq> set (map fst d) \<longrightarrow>
        append_to_sheet loads s sh = (Inr (missing_keys_reply (JObj d)), sh))
   \<and> (loads s = Some (JObj d) \<and> set expected_keys \<subseteq> set (map fst d)
        \<and> map_of d ''line_items'' = Some v \<and> as_list v = None \<longrightarrow>
        append_to_sheet loads s sh = (Inr (not_a_list_reply (JObj d)), sh))
   \<and> (loads s = Some (JObj d) \<and> set expected_keys \<subseteq> set (map fst d)
        \<and> map_of d ''line_items'' = Some (JArr (pre @ JObj li # post))
        \<and> list_all has_item_keys pre \<and> \<not> set item_keys \<subseteq> set (map fst li) \<longrightarrow>
        append_to_sheet loads s sh = (Inr (line_item_reply (JObj li) (JObj d)), sh))
   \<and> (loads s = Some (JObj d) \<and> valid_record (JObj d) \<longrightarrow>
        append_to_sheet_try loads s sh =
          (case append_receipt (JObj d) sh of
             (Inl e, sh1) \<Rightarrow> (Inl e, sh1)
           | (Inr result, sh1) \<Rightarrow> (Inr (Dumps result), sh1)))"
  using rejects_undecodable [of loads s sh] rejects_missing_keys [of loads s d sh]
    rejects_non_list [of loads s d v sh] rejects_line_item [of loads s d pre li post sh]
    validated_proceeds [of loads s "JObj d" sh]
  by blast

theorem validator_checks_in_order_witness:
  "append_to_sheet (map_of []) ''MILK 3.50'' empty_sheet =
     (Inr (invalid_json_reply ''MILK 3.50''), empty_sheet)
   \<and> append_to_sheet (map_of [(''receipt'', JObj no_line_items)]) ''receipt'' empty_sheet =
       (Inr (missing_keys_reply (JObj no_line_items)), empty_sheet)
   \<and> append_to_sheet (map_of [(''receipt'', JObj line_items_text)]) ''receipt'' empty_sheet =
       (Inr (not_a_list_reply (JObj line_items_text)), empty_sheet)
   \<and> append_to_sheet (map_of [(''receipt'', JObj uncategorised)]) ''receipt'' empty_sheet =
       (Inr (line_item_reply (JObj [(''item'', JStr ''Bread''), (''price'', JInt 2)])
              (JObj uncategorised)), empty_sheet)
   \<and> append_to_sheet_try (map_of [(''receipt'', JObj no_items)]) ''receipt'' empty_sheet =
       (Inr (Dumps [(''status'', PStr [Lit ''success'']), (''rows_added'', PNat 0)]),
        \<lparr>service = True, auth_fault = None, execute_fault = None, rows = []\<rparr>)"
proof -
  let ?milk = "JObj [(''item'', JStr ''Milk''), (''price'', JInt 3), (''category'', JStr ''Dairy'')]"
  let ?bread = "[(''item'', JStr ''Bread''), (''price'', JInt 2)]"
  let ?jam = "JObj [(''item'', JStr ''Jam'')]"
  have a: "append_to_sheet (map_of []) ''MILK 3.50'' empty_sheet =
      (Inr (invalid_json_reply ''MILK 3.50''), empty_sheet)"
    using validator_checks_in_order [of "map_of []" "''MILK 3.50''" empty_sheet]
    by simp
  have b: "append_to_sheet (map_of [(''receipt'', JObj no_line_items)]) ''receipt'' empty_sheet =
      (Inr (missing_keys_reply (JObj no_line_items)), empty_sheet)"
    using validator_checks_in_order [of "map_of [(''receipt'', JObj no_line_items)]" "''receipt''"
        empty_sheet no_line_items]
    by (simp add: no_line_items_def expected_keys_def)
  have c: "append_to_sheet (map_of [(''receipt'', JObj line_items_text)]) ''receipt'' empty_sheet =
      (Inr (not_a_list_reply (JObj line_items_text)), empty_sheet)"
    using validator_checks_in_order [of "map_of [(''receipt'', JObj line_items_text)]" "''receipt''"
        empty_sheet line_items_text "JStr ''Milk 3.50''"]
    by (simp add: line_items_text_def expected_keys_def)
  have d: "append_to_sheet (map_of [(''receipt'', JObj uncategorised)]) ''receipt'' empty_sheet =
      (Inr (line_item_reply (JObj ?bread) (JObj uncategorised)), empty_sheet)"
    using validator_checks_in_order [of "map_of [(''receipt'', JObj uncategorised)]" "''receipt''"
        empty_sheet uncategorised _ "[?milk]" ?bread "[?jam]"]
    by (simp add: uncategorised_def expected_keys_def item_keys_def)
  have e: "append_to_sheet_try (map_of [(''receipt'', JObj no_items)]) ''receipt'' empty_sheet =
      (Inr (Dumps [(''status'', PStr [Lit ''success'']), (''rows_added'', PNat 0)]),
       \<lparr>service = True, auth_fault = None, execute_fault = None, rows = []\<rparr>)"
    using validator_checks_in_order [of "map_of [(''receipt'', JObj no_items)]" "''receipt''"
        empty_sheet no_items]
    by (simp add: no_items_def expected_keys_def append_receipt_def auth_def receipt_values_def
        and_then_def dict_get_def empty_sheet_def)
  from a b c d e show ?thesis by blast
qed

section \<open>The tool boundary\<close>

lemma append_to_sheet_try_dumps:
  "append_to_sheet_try loads s sh = (Inr out, sh1) \<Longrightarrow> is_dumps out"
  by (auto simp: append_to_sheet_try_def missing_keys_reply_def not_a_list_reply_def
      line_item_reply_def split: option.splits sum.splits bool.splits prod.splits)

lemma add_category_try_dumps:
  "add_category_try c st = (Inr out, st1) \<Longrightarrow> is_dumps out"
  by (auto simp: add_category_try_def split: sum.splits bool.splits prod.splits)

lemma remove_category_try_dumps:
  "remove_category_try c st = (Inr out, st1) \<Longrightarrow> is_dumps out"
  by (auto simp: remove_category_try_def split: sum.splits bool.splits prod.splits)

lemma extract_returns:
  "\<exists>out. extract_receipt_text rd gen path = Inr out \<and> is_dumps out
     \<and> (\<forall>e. extract_receipt_text_try rd gen path = Inl e \<longrightarrow> has_error_field out)"
  by (auto simp: extract_receipt_text_def extract_receipt_text_try_def and_then_def
      error_reply_def split: sum.splits)

lemma structure_returns:
  "\<exists>out st1. structure_receipt_text llm raw st = (Inr out, st1)
     \<and> (\<forall>e. fst (structure_receipt_text_try llm raw st) = Inl e \<longrightarrow> has_error_field out)
     \<and> (\<forall>categories response.
           fst (load_categories st) = Inr categories
           \<and> llm (ClassifyRequest raw categories) = Inr response \<longrightarrow>
           out = Raw (parse_response response))"
  by (auto simp: structure_receipt_text_def structure_receipt_text_try_def error_reply_def
      and_then_def split: sum.splits prod.splits)

lemma append_returns:
  "\<exists>out sh1. append_to_sheet loads s sh = (Inr out, sh1) \<and> is_dumps out
     \<and> (\<forall>e. fst (append_to_sheet_try loads s sh) = Inl e \<longrightarrow> has_error_field out)"
proof (cases "append_to_sheet_try loads s sh")
  case (Pair r sh1)
  show ?thesis
  proof (cases r)
    case (Inl e)
    with Pair show ?thesis
      by (simp add: append_to_sheet_def invalid_json_reply_def exception_reply_def)
  next
    case (Inr out)
    with Pair append_to_sheet_try_dumps [of loads s sh out sh1] show ?thesis
      by (simp add: append_to_sheet_def)
  qed
qed

lemma add_returns:
  "\<exists>out st1. add_category c st = (Inr out, st1) \<and> is_dumps out
     \<and> (\<forall>e. fst (add_category_try c st) = Inl e \<longrightarrow> has_error_field out)"
proof (cases "add_category_try c st")
  case (Pair r st1)
  show ?thesis
  proof (cases r)
    case (Inl e)
    with Pair show ?thesis by (simp add: add_category_def error_reply_def)
  next
    case (Inr out)
    with Pair add_category_try_dumps [of c st out st1] show ?thesis
      by (simp add: add_category_def)
  qed
qed

lemma remove_returns:
  "\<exists>out st1. remove_category c st = (Inr out, st1) \<and> is_dumps out
     \<and> (\<forall>e. fst (remove_category_try c st) = Inl e \<longrightarrow> has_error_field out)"
proof (cases "remove_category_try c st")
  case (Pair r st1)
  show ?thesis
  proof (cases r)
    case (Inl e)
    with Pair show ?thesis by (simp add: remove_category_def error_reply_def)
  next
    case (Inr out)
    with Pair remove_category_try_dumps [of c st out st1] show ?thesis
      by (simp add: remove_category_def)
  qed
qed

text \<open>
  C9, as the specification states it, fails: when the model call succeeds,
  \<^verbatim>\<open>structure_receipt_text\<close> returns the text of the response as it is, here the empty
  text, which is not the serialisation of anything.
\<close>

theorem structure_receipt_text_counterexample:
  "structure_receipt_text no_candidates ''MILK 3.50'' default_store = (Inr (Raw []), default_store)
   \<and> \<not> is_dumps (Raw [])"
  by (simp add: structure_receipt_text_def structure_receipt_text_try_def load_categories_def
      default_store_def no_candidates_def and_then_def parse_response_def dict_get_def)

text \<open>
  C9, amended. None of the five tools lets an exception of class \<^verbatim>\<open>Exception\<close> out:
  each returns a reply, and when its \<^verbatim>\<open>try\<close> block raises, the reply is
  \<^verbatim>\<open>json.dumps\<close> of a dict with an \<open>error\<close> key. Every reply of
  \<^verbatim>\<open>extract_receipt_text\<close>, \<^verbatim>\<open>append_to_sheet\<close>, \<^verbatim>\<open>add_category\<close> and
  \<^verbatim>\<open>remove_category\<close> is \<^verbatim>\<open>json.dumps\<close> of a dict. \<^verbatim>\<open>structure_receipt_text\<close>
  replies so when its block raises; when the categories load and the model call
  answers, its reply is \<^verbatim>\<open>parse_response\<close> of the response, the text as it is.
\<close>

theorem tools_never_raise:
  "(\<exists>out. extract_receipt_text rd ocr path = Inr out \<and> is_dumps out
      \<and> (\<forall>e. extract_receipt_text_try rd ocr path = Inl e \<longrightarrow> has_error_field out))
   \<and> (\<exists>out st1. structure_receipt_text llm raw st = (Inr out, st1)
      \<and> (\<forall>e. fst (structure_receipt_text_try llm raw st) = Inl e \<longrightarrow> has_error_field out)
      \<and> (\<forall>categories response.
            fst (load_categories st) = Inr categories
            \<and> llm (ClassifyRequest raw categories) = Inr response \<longrightarrow>
            out = Raw (parse_response response)))
   \<and> (\<exists>out sh1. append_to_sheet loads s sh = (Inr out, sh1) \<and> is_dumps out
      \<and> (\<forall>e. fst (append_to_sheet_try loads s sh) = Inl e \<longrightarrow> has_error_field out))
   \<and> (\<exists>out st1. add_category new_category st_add = (Inr out, st1) \<and> is_dumps out
      \<and> (\<forall>e. fst (add_category_try new_category st_add) = Inl e \<longrightarrow> has_error_field out))
   \<and> (\<exists>out st1. remove_category category st_rm = (Inr out, st1) \<and> is_dumps out
      \<and> (\<forall>e. fst (remove_category_try category st_rm) = Inl e \<longrightarrow> has_error_field out))"
  using extract_returns structure_returns append_returns add_returns remove_returns
  by (intro conjI)

theorem tools_never_raise_witness:
  "(\<exists>out. extract_receipt_text no_such_image no_candidates ''r.jpg'' = Inr out
      \<and> has_error_field out)
   \<and> (\<exists>out. fst (structure_receipt_text gemini_down ''MILK 3.50'' None) = Inr out
      \<and> has_error_field out)
   \<and> (\<exists>out. fst (append_to_sheet (map_of [(''7'', JInt 7)]) ''7'' empty_sheet) = Inr out
      \<and> has_error_field out)
   \<and> (\<exists>out. fst (add_category ''Fuel'' (Some Garbled)) = Inr out \<and> has_error_field out)
   \<and> (\<exists>out. fst (remove_category ''Fuel'' (Some (Doc (JObj [(''categories'', JInt 3)])))) = Inr out
      \<and> has_error_field out)
   \<and> fst (structure_receipt_text two_candidates ''MILK 3.50'' None) =
       Inr (Raw (''Milk'' @ [CHR 0x0A] @ ''Dairy''))"
proof -
  have a: "extract_receipt_text_try no_such_image no_candidates ''r.jpg'' =
      Inl (External ''No such file or directory'')"
    by (simp add: extract_receipt_text_try_def no_such_image_def and_then_def)
  have b: "fst (structure_receipt_text_try gemini_down ''MILK 3.50'' None) =
      Inl (External ''503 Service Unavailable'')"
    by (simp add: structure_receipt_text_try_def load_categories_def gemini_down_def and_then_def)
  have c: "fst (append_to_sheet_try (map_of [(''7'', JInt 7)]) ''7'' empty_sheet) = Inl TypeError"
    by (simp add: append_to_sheet_try_def expected_keys_def)
  have d: "fst (add_category_try ''Fuel'' (Some Garbled)) = Inl JSONDecodeError"
    by (simp add: add_category_try_def load_categories_def)
  have e: "fst (remove_category_try ''Fuel'' (Some (Doc (JObj [(''categories'', JInt 3)])))) =
      Inl TypeError"
    by (simp add: remove_category_try_def load_categories_def dict_get_def)
  note run = tools_never_raise [of no_such_image no_candidates "''r.jpg''" gemini_down
      "''MILK 3.50''" None "map_of [(''7'', JInt 7)]" "''7''" empty_sheet "''Fuel''" "Some Garbled"
      "''Fuel''" "Some (Doc (JObj [(''categories'', JInt 3)]))"]
  from run a b c d
  have abcd: "(\<exists>out. extract_receipt_text no_such_image no_candidates ''r.jpg'' = Inr out
      \<and> has_error_field out)
   \<and> (\<exists>out. fst (structure_receipt_text gemini_down ''MILK 3.50'' None) = Inr out
      \<and> has_error_field out)
   \<and> (\<exists>out. fst (append_to_sheet (map_of [(''7'', JInt 7)]) ''7'' empty_sheet) = Inr out
      \<and> has_error_field out)
   \<and> (\<exists>out. fst (add_category ''Fuel'' (Some Garbled)) = Inr out \<and> has_error_field out)"
    by fastforce
  from run e
  have "\<exists>out. fst (remove_category ''Fuel'' (Some (Doc (JObj [(''categories'', JInt 3)])))) = Inr out
      \<and> has_error_field out"
    by fastforce
  moreover have "fst (structure_receipt_text two_candidates ''MILK 3.50'' None) =
      Inr (Raw (''Milk'' @ [CHR 0x0A] @ ''Dairy''))"
  proof -
    let ?response = "[Candidate (Some [Part (Some ''Milk''), Part None, Part (Some [])]),
        Candidate None, Candidate (Some [Part (Some ''Dairy'')])]"
    have l: "fst (load_categories None) = Inr (JArr (map JStr default_categories))"
      by (simp add: load_categories_def)
    have g: "two_candidates (ClassifyRequest ''MILK 3.50'' (JArr (map JStr default_categories))) =
        Inr ?response"
      by (simp add: two_candidates_def)
    have p: "parse_response ?response = ''Milk'' @ [CHR 0x0A] @ ''Dairy''"
      by (simp add: parse_response_def)
    from tools_never_raise [of no_such_image no_candidates "''r.jpg''" two_candidates
        "''MILK 3.50''" None "map_of [(''7'', JInt 7)]" "''7''" empty_sheet "''Fuel''"
        "Some Garbled" "''Fuel''" "Some Garbled"] l g p
    show ?thesis by fastforce
  qed
  ultimately show ?thesis using abcd by blast
qed

end
